theory Spec2Isabelle
  imports Complex_Main
begin

section \<open>Values, errors and the numpy operations the sources use\<close>

text \<open>
  The Python sources compute on numpy arrays of floats. Floats are modelled as \<open>real\<close>
  (rounding, NaN and infinities are outside the model); a 2-D array is the list of its rows.
  An array with no rows carries no column count in this representation.
  Every exception the sources can raise is a value of \<open>error\<close>; a computation that may
  raise returns \<open>error + 'a\<close> with \<open>Inl\<close> for the exception.
\<close>

type_synonym matrix = "real list list"

datatype error =
    TypeError
  | IndexError
  | ValueError
  | InvalidWindow
  | InsufficientTimeSpacing
  | Failure string

definition bindE :: "error + 'a \<Rightarrow> ('a \<Rightarrow> error + 'b) \<Rightarrow> error + 'b" where
  "bindE m f = (case m of Inl e \<Rightarrow> Inl e | Inr x \<Rightarrow> f x)"

definition nrows :: "matrix \<Rightarrow> nat" where
  "nrows m = length m"

definition ncols :: "matrix \<Rightarrow> nat" where
  "ncols m = (case m of [] \<Rightarrow> 0 | r # _ \<Rightarrow> length r)"

text \<open>\<open>is_mat r c m\<close>: \<open>m\<close> is a rectangular array of shape \<open>(r, c)\<close>.\<close>

definition is_mat :: "nat \<Rightarrow> nat \<Rightarrow> matrix \<Rightarrow> bool" where
  "is_mat r c m = (length m = r \<and> list_all (\<lambda>row. length row = c) m)"

text \<open>\<open>np.zeros((r, c))\<close>.\<close>

definition np_zeros :: "nat \<Rightarrow> nat \<Rightarrow> matrix" where
  "np_zeros r c = replicate r (replicate c 0)"

text \<open>\<open>np.transpose\<close> of a 2-D array.\<close>

definition np_transpose :: "matrix \<Rightarrow> matrix" where
  "np_transpose m = transpose m"

text \<open>\<open>np.ravel\<close>: the elements in row-major order.\<close>

definition np_ravel :: "matrix \<Rightarrow> real list" where
  "np_ravel m = concat m"

text \<open>\<open>m[:, j]\<close>: IndexError when \<open>j\<close> is not a column of \<open>m\<close>.\<close>

definition column :: "matrix \<Rightarrow> nat \<Rightarrow> error + real list" where
  "column m j = (if list_all (\<lambda>row. j < length row) m then Inr (map (\<lambda>row. row ! j) m)
                 else Inl IndexError)"

text \<open>\<open>m[:, a:b]\<close>: a slice never raises; it is cut to the columns that exist.\<close>

definition cols_slice :: "matrix \<Rightarrow> nat \<Rightarrow> nat \<Rightarrow> matrix" where
  "cols_slice m a b = map (\<lambda>row. take (b - a) (drop a row)) m"

text \<open>
  Broadcasting of one dimension: two extents are compatible when they are equal or one
  of them is 1; \<open>stretch\<close> repeats the single element of a length-1 axis.
\<close>

definition bdim :: "nat \<Rightarrow> nat \<Rightarrow> nat option" where
  "bdim a b = (if a = b then Some a else if a = 1 then Some b
               else if b = 1 then Some a else None)"

definition stretch :: "nat \<Rightarrow> 'a list \<Rightarrow> 'a list" where
  "stretch n xs = (if length xs = 1 \<and> n \<noteq> 1 then replicate n (hd xs) else xs)"

text \<open>\<open>a - b\<close> on 2-D arrays, with broadcasting; ValueError when the shapes do not broadcast.\<close>

definition np_sub :: "matrix \<Rightarrow> matrix \<Rightarrow> error + matrix" where
  "np_sub a b =
     (case (bdim (nrows a) (nrows b), bdim (ncols a) (ncols b)) of
        (Some r, Some c) \<Rightarrow>
          Inr (map2 (\<lambda>ra rb. map2 (-) (stretch c ra) (stretch c rb)) (stretch r a) (stretch r b))
      | _ \<Rightarrow> Inl ValueError)"

text \<open>
  \<open>m[:, i] = v\<close> for a 1-D \<open>v\<close>: \<open>v\<close> must have one entry per row of \<open>m\<close>, or a
  single entry that is broadcast; otherwise numpy raises ValueError.
\<close>

definition set_column :: "matrix \<Rightarrow> nat \<Rightarrow> real list \<Rightarrow> error + matrix" where
  "set_column m i v =
     (if length v = length m then Inr (map2 (\<lambda>row x. row[i := x]) m v)
      else if length v = 1 then Inr (map (\<lambda>row. row[i := hd v]) m)
      else Inl ValueError)"

text \<open>
  \<open>m[:, a:b] = v\<close> for a 2-D \<open>v\<close>: \<open>v\<close> must broadcast to the shape of the target
  slice, \<open>(nrows m, b - a)\<close>.
\<close>

definition set_cols :: "matrix \<Rightarrow> nat \<Rightarrow> nat \<Rightarrow> matrix \<Rightarrow> error + matrix" where
  "set_cols m a b v =
     (if (nrows v = nrows m \<or> nrows v = 1) \<and> (ncols v = b - a \<or> ncols v = 1)
      then Inr (map2 (\<lambda>row vr. take a row @ stretch (b - a) vr @ drop b row)
                  m (stretch (nrows m) v))
      else Inl ValueError)"

section \<open>The pipeline entry point: \<open>final_init.mainf\<close>\<close>

text \<open>
  \<open>mainf\<close> calls six modules of the repository whose code is not part of the verified
  sources (\<open>read_data\<close>, \<open>tripple_moving_average\<close>, \<open>golay_filter\<close>, \<open>orbit_fit\<close>,
  \<open>kep_state\<close>, \<open>rkf78\<close>) and the plotting library. They are parameters of the model,
  collected in an environment: each is a function that returns a value or raises. The field
  \<open>plt\<close> says, for every plotting call, whether the plotting library raises on it.
\<close>

datatype call =
    Rc_legend_fontsize nat
  | Figure
  | Gca string
  | Plot3 "real list" "real list" "real list" string string
  | Legend
  | Can_zoom
  | Set_xlabel string
  | Set_ylabel string
  | Set_zlabel string
  | Show
  | Subplots
  | Plot2 matrix matrix string string
  | Legend_anchor real real
  | Tick_params string string
  | Twinx

datatype label = Name string | Idx nat

datatype event =
    Print string
  | Print_frame "label list" "label list" matrix
  | Call call

record env =
  load_data :: "string \<Rightarrow> error + matrix"
  generate_filtered_data :: "matrix \<Rightarrow> nat \<Rightarrow> error + matrix"
  golay :: "matrix \<Rightarrow> int \<Rightarrow> error + matrix"
  create_kep :: "matrix \<Rightarrow> error + matrix"
  kalman :: "matrix \<Rightarrow> error + matrix"
  Kep_state :: "matrix \<Rightarrow> error + matrix"
  rkf78 :: "nat \<Rightarrow> real \<Rightarrow> real \<Rightarrow> real \<Rightarrow> real \<Rightarrow> matrix \<Rightarrow> error + matrix"
  plt :: "call \<Rightarrow> error option"

text \<open>
  Lines 37-43: loading, triple moving average with window 3, Savitzky-Golay filter,
  \<open>create_kep\<close> on the filtered track, Kalman refinement, transposition. The variable
  \<open>my_data\<close> is reassigned to the moving-average output, which is what the later
  statements read.
\<close>

definition mainf_estimate :: "env \<Rightarrow> string \<Rightarrow> int \<Rightarrow> error + (matrix \<times> matrix \<times> matrix)" where
  "mainf_estimate E datafile window =
     bindE (load_data E datafile) (\<lambda>raw.
     bindE (generate_filtered_data E raw 3) (\<lambda>my_data.
     bindE (golay E my_data window) (\<lambda>my_data_filt.
     bindE (create_kep E my_data_filt) (\<lambda>kep.
     bindE (kalman E kep) (\<lambda>kep_final.
     Inr (my_data, my_data_filt, np_transpose kep_final))))))"

text \<open>
  Lines 49-60: the propagation loop. The loop state is \<open>(keep_state, t_hold, tf)\<close>;
  \<open>ti = 0.0\<close>, \<open>h = 1.0\<close>, \<open>tetol = 1e-04\<close> and \<open>x = state\<close> are never reassigned.
\<close>

fun mainf_loop :: "env \<Rightarrow> matrix \<Rightarrow> nat list \<Rightarrow> matrix \<times> matrix \<times> real
    \<Rightarrow> error + (matrix \<times> matrix \<times> real)" where
  "mainf_loop E x [] acc = Inr acc"
| "mainf_loop E x (i # is) (keep_state, t_hold, tf) =
     (case rkf78 E 6 0 tf 1 (1 / 10000) x of
        Inl e \<Rightarrow> Inl e
      | Inr y \<Rightarrow>
         (case set_column keep_state i (np_ravel y) of
            Inl e \<Rightarrow> Inl e
          | Inr keep_state' \<Rightarrow>
              mainf_loop E x is
                (keep_state', t_hold[i := (t_hold ! i)[0 := tf]], tf + 100)))"

definition mainf_propagate :: "env \<Rightarrow> matrix \<Rightarrow> error + (matrix \<times> matrix)" where
  "mainf_propagate E state =
     (case mainf_loop E state [0..<20] (np_zeros 6 20, np_zeros 20 1, 100) of
        Inl e \<Rightarrow> Inl e
      | Inr (keep_state, t_hold, tf) \<Rightarrow> Inr (keep_state, t_hold))"

text \<open>Lines 69-71: the difference between the track and its filtered version.\<close>

definition mainf_dif :: "matrix \<Rightarrow> matrix \<Rightarrow> error + matrix" where
  "mainf_dif my_data my_data_filt =
     bindE (np_sub (cols_slice my_data 1 4) (cols_slice my_data_filt 1 4)) (\<lambda>d.
     bindE (set_cols (np_zeros (length my_data) 4) 1 4 d) (\<lambda>dif.
     bindE (column my_data 0) (\<lambda>t.
     set_column dif 0 t)))"

text \<open>
  Lines 84-89: the labels that \<open>df2.rename\<close> gives to the rows 0 to 5 of the printed
  result; a row beyond them keeps its number. Every label names its unit in parentheses,
  and \<open>unit_text\<close> reads it off the label.
\<close>

definition kep_labels :: "string list" where
  "kep_labels =
     [''Semi major axis (km)'', ''Eccentricity (float number)'',
      ''Inclination (degrees)'', ''Argument of perigee (degrees)'',
      ''Right ascension of the ascending node (degrees)'',
      ''True anomally (degrees)'']"

definition rename_index :: "nat \<Rightarrow> label list" where
  "rename_index n =
     map (\<lambda>i. if i < length kep_labels then Name (kep_labels ! i) else Idx i) [0..<n]"


definition mainf_prints :: "matrix \<Rightarrow> matrix \<Rightarrow> event list" where
  "mainf_prints dif kep_final =
     [Print_frame (map Idx [0..<nrows dif])
        [Name ''Time (sec)'', Name ''x (km)'', Name ''y (km)'', Name ''z (km)''] dif,
      Print '' '', Print '' '',
      Print ''Displaying the keplerian elements final computation given by the use of the filtered data set, Lamberts solution and Kalman filtering'',
      Print_frame (rename_index (nrows kep_final))
        (map (\<lambda>j. if j = 0 then Name ''Final Results'' else Idx j) [0..<ncols kep_final])
        kep_final]"

text \<open>
  Lines 92-131: the plotting statements, in order. Evaluating the arguments of a call can
  raise (a missing column); the call itself raises when the plotting library does.
  \<open>run_calls\<close> executes the statements until the first one that raises.
\<close>

fun run_calls :: "(call \<Rightarrow> error option) \<Rightarrow> (error + call) list \<Rightarrow> event list \<times> error option" where
  "run_calls B [] = ([], None)"
| "run_calls B (Inl e # cs) = ([], Some e)"
| "run_calls B (Inr c # cs) =
     (case B c of
        Some e \<Rightarrow> ([], Some e)
      | None \<Rightarrow> (case run_calls B cs of (evs, r) \<Rightarrow> (Call c # evs, r)))"

definition plot3 :: "matrix \<Rightarrow> string \<Rightarrow> string \<Rightarrow> error + call" where
  "plot3 m fmt lab =
     bindE (column m 1) (\<lambda>x. bindE (column m 2) (\<lambda>y. bindE (column m 3) (\<lambda>z.
       Inr (Plot3 x y z fmt lab))))"

definition vec_norms :: "matrix \<Rightarrow> nat \<Rightarrow> matrix" where
  "vec_norms keep_state k =
     map (\<lambda>i. [sqrt ((keep_state ! k ! i)\<^sup>2 + (keep_state ! (k + 1) ! i)\<^sup>2
                    + (keep_state ! (k + 2) ! i)\<^sup>2)]) [0..<20]"

definition mainf_render_calls :: "matrix \<Rightarrow> matrix \<Rightarrow> matrix \<Rightarrow> matrix \<Rightarrow> (error + call) list" where
  "mainf_render_calls my_data my_data_filt keep_state t_hold =
     (let positions = take 3 keep_state;
          r = vec_norms keep_state 0;
          v = vec_norms keep_state 3
      in [Inr (Rc_legend_fontsize 10),
          Inr Figure,
          Inr (Gca ''3d''),
          plot3 my_data ''.'' ''Initial data '',
          plot3 my_data_filt ''k'' ''Filtered data with Savitzky - Golay filter'',
          Inr (Plot3 (positions ! 0) (positions ! 1) (positions ! 2) ''r-''
                 ''Orbit after Lamberts - Kalman''),
          Inr Legend,
          Inr Can_zoom,
          Inr (Set_xlabel ''x (km)''),
          Inr (Set_ylabel ''y (km)''),
          Inr (Set_zlabel ''z (km)''),
          Inr Show,
          Inr Subplots,
          Inr (Plot2 t_hold r ''b'' ''Absolute value of position vector r''),
          Inr (Legend_anchor 1 (115 / 100)),
          Inr (Set_xlabel ''Time (sec)''),
          Inr (Set_ylabel ''|r| (km)''),
          Inr (Tick_params ''y'' ''b''),
          Inr Twinx,
          Inr (Plot2 t_hold v ''r'' ''Absolute value of velocity vector v''),
          Inr (Legend_anchor 1 (105 / 100)),
          Inr (Set_ylabel ''|v| (km/s)''),
          Inr (Tick_params ''y'' ''r''),
          Inr Show])"

text \<open>
  \<open>mainf\<close>: the events it produced (prints and plotting calls) and its outcome, the
  returned array or the exception that ended it. The only \<open>return\<close> is the last
  statement, after the second \<open>plt.show()\<close>; there is no \<open>try\<close> in the function.
\<close>

definition mainf :: "env \<Rightarrow> string \<Rightarrow> int \<Rightarrow> event list \<times> (error + matrix)" where
  "mainf E datafile window =
     (case mainf_estimate E datafile window of
        Inl e \<Rightarrow> ([], Inl e)
      | Inr (my_data, my_data_filt, kep_final) \<Rightarrow>
         (case bindE (Kep_state E kep_final) (mainf_propagate E) of
            Inl e \<Rightarrow> ([], Inl e)
          | Inr (keep_state, t_hold) \<Rightarrow>
             (let ev1 = [Print ''Diplaying the differences between the initial data set and the data set filtered with Savitzky - Golay filter'']
              in case mainf_dif my_data my_data_filt of
                   Inl e \<Rightarrow> (ev1, Inl e)
                 | Inr dif \<Rightarrow>
                    (let ev2 = ev1 @ mainf_prints dif kep_final
                     in case run_calls (plt E)
                               (mainf_render_calls my_data my_data_filt keep_state t_hold) of
                          (calls, Some e) \<Rightarrow> (ev2 @ calls, Inl e)
                        | (calls, None) \<Rightarrow> (ev2 @ calls, Inr kep_final)))))"

section \<open>The plotting functions of \<open>doppler/utils/utils_vis.py\<close>\<close>

text \<open>
  An array whose number of dimensions the code inspects at run time (\<open>x_obs_multiple\<close>)
  is a value of \<open>ndarray\<close>: one, two or three dimensions, as nested lists. Arrays are
  rectangular; the trajectory and batch arrays, which the code indexes as 2-D throughout,
  have type \<open>matrix\<close>.
\<close>

datatype ndarray = Arr1 "real list" | Arr2 matrix | Arr3 "matrix list"

fun shape :: "ndarray \<Rightarrow> nat list" where
  "shape (Arr1 v) = [length v]"
| "shape (Arr2 m) = [nrows m, ncols m]"
| "shape (Arr3 a) =
     [length a, (case a of [] \<Rightarrow> 0 | m # _ \<Rightarrow> nrows m), (case a of [] \<Rightarrow> 0 | m # _ \<Rightarrow> ncols m)]"

text \<open>\<open>a.shape[k]\<close>: the shape is a tuple, and indexing past its end raises IndexError.\<close>

definition shape_at :: "ndarray \<Rightarrow> nat \<Rightarrow> error + nat" where
  "shape_at a k = (if k < length (shape a) then Inr (shape a ! k) else Inl IndexError)"

text \<open>
  \<open>np.expand_dims(a, axis)\<close>. The parameter \<open>axis\<close> has no default: a call without it
  raises TypeError before numpy looks at the array.
\<close>

fun expand_dims_at :: "ndarray \<Rightarrow> int \<Rightarrow> error + ndarray" where
  "expand_dims_at (Arr1 v) k =
     (if k = 0 \<or> k = -2 then Inr (Arr2 [v])
      else if k = 1 \<or> k = -1 then Inr (Arr2 (map (\<lambda>x. [x]) v))
      else Inl (Failure ''AxisError''))"
| "expand_dims_at (Arr2 m) k =
     (if k = 0 \<or> k = -3 then Inr (Arr3 [m])
      else if k = 1 \<or> k = -2 then Inr (Arr3 (map (\<lambda>row. [row]) m))
      else if k = 2 \<or> k = -1 then Inr (Arr3 (map (map (\<lambda>x. [x])) m))
      else Inl (Failure ''AxisError''))"
| "expand_dims_at (Arr3 a) k = Inl (Failure ''four dimensions'')"

definition np_expand_dims :: "ndarray \<Rightarrow> int option \<Rightarrow> error + ndarray" where
  "np_expand_dims a axis =
     (case axis of None \<Rightarrow> Inl TypeError | Some k \<Rightarrow> expand_dims_at a k)"

text \<open>\<open>m[k, i]\<close>, \<open>m[k, :]\<close> and \<open>v[i]\<close>, with the IndexError of an index out of range.\<close>

definition elem :: "matrix \<Rightarrow> nat \<Rightarrow> nat \<Rightarrow> error + real" where
  "elem m k i = (if k < length m \<and> i < length (m ! k) then Inr (m ! k ! i) else Inl IndexError)"

definition row_at :: "matrix \<Rightarrow> nat \<Rightarrow> error + real list" where
  "row_at m k = (if k < length m then Inr (m ! k) else Inl IndexError)"

definition nth_checked :: "'a list \<Rightarrow> nat \<Rightarrow> error + 'a" where
  "nth_checked xs i = (if i < length xs then Inr (xs ! i) else Inl IndexError)"

text \<open>\<open>x[k, :, i]\<close>, \<open>x[k, 0, i]\<close> and \<open>x[:, :, i]\<close> on a 3-D array.\<close>

fun obs_track :: "ndarray \<Rightarrow> nat \<Rightarrow> nat \<Rightarrow> error + real list" where
  "obs_track (Arr3 a) k i =
     (if k < length a \<and> i < shape (Arr3 a) ! 2 then Inr (map (\<lambda>row. row ! i) (a ! k))
      else Inl IndexError)"
| "obs_track _ k i = Inl IndexError"

fun obs_first :: "ndarray \<Rightarrow> nat \<Rightarrow> nat \<Rightarrow> error + real" where
  "obs_first (Arr3 a) k i =
     (if k < length a \<and> 0 < shape (Arr3 a) ! 1 \<and> i < shape (Arr3 a) ! 2
      then Inr (a ! k ! 0 ! i) else Inl IndexError)"
| "obs_first _ k i = Inl IndexError"

fun obs_station :: "ndarray \<Rightarrow> nat \<Rightarrow> error + matrix" where
  "obs_station (Arr3 a) i =
     (if i < shape (Arr3 a) ! 2 then Inr (map (map (\<lambda>row. row ! i)) a) else Inl IndexError)"
| "obs_station _ i = Inl IndexError"


text \<open>\<open>np.linalg.norm(m, axis=0)\<close>: the Euclidean norm of every column.\<close>

definition col_norms :: "matrix \<Rightarrow> real list" where
  "col_norms m = map (\<lambda>i. sqrt (sum_list (map (\<lambda>row. (row ! i)\<^sup>2) m))) [0..<ncols m]"

text \<open>
  The plotting functions of \<open>utils_vis\<close> are modelled by what they draw: the list of
  Matplotlib calls made, in order, and the exception that ended the function, if any. A
  statement is a value of \<open>error + draw\<close>: evaluating its arguments may raise, otherwise
  it draws. \<open>run_steps\<close> executes statements until the first one that raises. A plot of
  \<open>y\<close> against \<open>x\<close> raises ValueError when the two differ in length.
\<close>

datatype legend_entry = Observer nat | Entry string

datatype draw =
    Rc_font nat
  | New_figure nat nat
  | Add_subplot nat nat nat bool
  | Ticklabel_format string
  | Scatter "real list" "real list" "real list" string
  | Scatter_point real real real string
  | Plot_line3 "real list" "real list" "real list" string
  | Plot_line "real list" "real list"
  | Axis_label string string
  | Grid
  | Title string
  | Legend_of "legend_entry list"
  | Subplots_adjust

fun run_steps :: "(error + draw) list \<Rightarrow> draw list \<times> error option" where
  "run_steps [] = ([], None)"
| "run_steps (Inl e # ss) = ([], Some e)"
| "run_steps (Inr d # ss) = (case run_steps ss of (ds, r) \<Rightarrow> (d # ds, r))"

definition point :: "matrix \<Rightarrow> nat \<Rightarrow> string \<Rightarrow> error + draw" where
  "point m i style =
     bindE (elem m 0 i) (\<lambda>x. bindE (elem m 1 i) (\<lambda>y. bindE (elem m 2 i) (\<lambda>z.
       Inr (Scatter_point x y z style))))"

definition plot_xy :: "real list \<Rightarrow> real list \<Rightarrow> error + draw" where
  "plot_xy x y = (if length x = length y then Inr (Plot_line x y) else Inl ValueError)"

text \<open>
  Lines 72-74 and 113-114, the "dimension fix" of \<open>plot_example_3d\<close> and
  \<open>plot_range_range_rate\<close>: \<open>np.expand_dims(x_obs_multiple)\<close>, with no axis.
\<close>

definition dimension_fix :: "ndarray \<Rightarrow> error + ndarray" where
  "dimension_fix x_obs_multiple =
     (if length (shape x_obs_multiple) = 2 then np_expand_dims x_obs_multiple None
      else Inr x_obs_multiple)"

text \<open>Lines 58-102: \<open>plot_example_3d\<close>.\<close>

definition observer_steps :: "ndarray \<Rightarrow> nat \<Rightarrow> (error + draw) list" where
  "observer_steps x_obs i =
     [bindE (obs_track x_obs 0 i) (\<lambda>x. bindE (obs_track x_obs 1 i) (\<lambda>y.
        bindE (obs_track x_obs 2 i) (\<lambda>z. Inr (Scatter x y z ''marker=.,s=4'')))),
      bindE (obs_first x_obs 0 i) (\<lambda>x. bindE (obs_first x_obs 1 i) (\<lambda>y.
        bindE (obs_first x_obs 2 i) (\<lambda>z. Inr (Scatter_point x y z ''c=facecolors''))))]"

definition plot_example_3d :: "matrix \<Rightarrow> ndarray \<Rightarrow> string option \<Rightarrow> draw list \<times> error option" where
  "plot_example_3d x_sat_orbdyn_stm x_obs_multiple title =
     run_steps
       ([Inr (Rc_font 16), Inr (New_figure 14 14), Inr (Add_subplot 1 1 1 True)] @
        (case dimension_fix x_obs_multiple of
           Inl e \<Rightarrow> [Inl e]
         | Inr x_obs \<Rightarrow>
            (case shape_at x_obs 2 of
               Inl e \<Rightarrow> [Inl e]
             | Inr n \<Rightarrow>
                 concat (map (observer_steps x_obs) [0..<n]) @
                 [Inr (Axis_label ''x'' ''x ECI (m)''),
                  Inr (Axis_label ''y'' ''y ECI (m)''),
                  Inr (Axis_label ''z'' ''z ECI (m)''),
                  point x_sat_orbdyn_stm 0 ''c=k'',
                  bindE (row_at x_sat_orbdyn_stm 0) (\<lambda>x. bindE (row_at x_sat_orbdyn_stm 1) (\<lambda>y.
                    bindE (row_at x_sat_orbdyn_stm 2) (\<lambda>z. Inr (Scatter x y z ''marker=.,c=k,s=1''))))] @
                 (if title \<noteq> None then [Inr (Title ''Scenario example'')] else []) @
                 [Inr (Legend_of (map Observer [0..<n] @ [Entry ''Satellite'']))])))"

text \<open>
  Lines 104-139: \<open>plot_range_range_rate\<close>. The function \<open>range_range_rate\<close> of
  \<open>utils.py\<close> is not among the sources and is a parameter.
\<close>

definition station_steps :: "(matrix \<Rightarrow> matrix \<Rightarrow> error + real list \<times> real list) \<Rightarrow> matrix
    \<Rightarrow> ndarray \<Rightarrow> real list \<Rightarrow> nat \<Rightarrow> nat \<Rightarrow> (error + draw) list" where
  "station_steps range_range_rate x_sat x_obs t_sec n_obs i =
     (case bindE (obs_station x_obs i) (range_range_rate x_sat) of
        Inl e \<Rightarrow> [Inl e]
      | Inr (r, rr) \<Rightarrow>
          [Inr (Add_subplot n_obs 2 (i * 2 + 1) False),
           plot_xy t_sec r,
           Inr (Axis_label ''x'' ''Time (s)''),
           Inr (Axis_label ''y'' ''Range (m)''),
           Inr Grid,
           Inr (Title ''Station 1 - Range''),
           Inr (Add_subplot n_obs 2 (i * 2 + 2) False),
           plot_xy t_sec rr,
           Inr (Axis_label ''x'' ''Time (s)''),
           Inr (Axis_label ''y'' ''Range rate (m/s)''),
           Inr Grid,
           Inr (Title ''Station 1 - Range Rate'')])"

definition plot_range_range_rate :: "(matrix \<Rightarrow> matrix \<Rightarrow> error + real list \<times> real list) \<Rightarrow> matrix
    \<Rightarrow> ndarray \<Rightarrow> real list \<Rightarrow> draw list \<times> error option" where
  "plot_range_range_rate range_range_rate x_sat_orbdyn_stm x_obs_multiple t_sec =
     run_steps
       (case dimension_fix x_obs_multiple of
          Inl e \<Rightarrow> [Inl e]
        | Inr x_obs \<Rightarrow>
            Inr (New_figure 14 14) #
            (case shape_at x_obs 2 of
               Inl e \<Rightarrow> [Inl e]
             | Inr n_obs \<Rightarrow>
                 concat (map (station_steps range_range_rate x_sat_orbdyn_stm x_obs t_sec n_obs)
                           [0..<n_obs]) @
                 [Inr Subplots_adjust]))"

text \<open>
  Lines 173-224: \<open>plot_batch_results\<close>. The source computes \<open>norm_mask\<close> with the
  threshold 5000 and never reads it; \<open>plot_batch_results_masked\<close> is the function with that
  threshold as a parameter, and \<open>plot_batch_results\<close> is its instance at 5000.
\<close>

definition candidate_steps :: "real list \<Rightarrow> matrix \<Rightarrow> matrix \<Rightarrow> nat \<Rightarrow> (error + draw) list" where
  "candidate_steps x_berr_norm x_0r x_br i =
     (case nth_checked x_berr_norm i of
        Inl e \<Rightarrow> [Inl e]
      | Inr v \<Rightarrow>
          if v < 100000
          then [point x_0r i ''c=b,s=40,marker=x'', point x_br i ''c=r,s=20'']
          else [])"

definition plot_batch_results_masked :: "real \<Rightarrow> matrix \<Rightarrow> matrix \<Rightarrow> matrix \<Rightarrow> matrix
    \<Rightarrow> draw list \<times> error option" where
  "plot_batch_results_masked threshold x_sat_orbdyn_stm x_0r x_br x_berr =
     (let x_berr_norm = col_norms x_berr;
          norm_mask = map (\<lambda>v. v < threshold) x_berr_norm
      in run_steps
           ([Inr (New_figure 14 14), Inr (Add_subplot 1 1 1 True), Inr (Rc_font 16),
             Inr (Ticklabel_format ''y''),
             point x_sat_orbdyn_stm 0 ''s=10,marker=x,c=r'',
             bindE (row_at x_sat_orbdyn_stm 0) (\<lambda>x. bindE (row_at x_sat_orbdyn_stm 1) (\<lambda>y.
               bindE (row_at x_sat_orbdyn_stm 2) (\<lambda>z.
                 Inr (Plot_line3 (take 4 x) (take 4 y) (take 4 z) ''c=k'')))),
             point x_sat_orbdyn_stm 0 ''c=k,s=10''] @
            concat (map (candidate_steps x_berr_norm x_0r x_br) [0..<ncols x_0r]) @
            [Inr (Axis_label ''x'' ''x ECI (m)''),
             Inr (Axis_label ''y'' ''y ECI (m)''),
             Inr (Axis_label ''z'' ''z ECI (m)''),
             point x_0r 0 ''c=b,s=40,marker=x'',
             point x_br 1 ''c=r,s=20'',
             Inr (Legend_of [Entry ''Groundtruth trajectory'', Entry ''Pre-batch positions'',
                             Entry ''Post-batch positions''])]))"

definition plot_batch_results :: "matrix \<Rightarrow> matrix \<Rightarrow> matrix \<Rightarrow> matrix \<Rightarrow> draw list \<times> error option" where
  "plot_batch_results = plot_batch_results_masked 5000"




text \<open>
The marker that \<open>ax1.scatter(m[0, i], m[1, i], m[2, i], ...)\<close> draws.
\<close>

definition scatter_at :: "matrix \<Rightarrow> nat \<Rightarrow> string \<Rightarrow> draw" where
  "scatter_at m i style = Scatter_point (m ! 0 ! i) (m ! 1 ! i) (m ! 2 ! i) style"

section \<open>The Smoother\<close>

text \<open>
  Modelled from the spec: \<open>golay_filter.golay\<close>, the Savitzky-Golay stage that \<open>mainf\<close>
  calls, is not among the sources. The definitions below follow section 4.1 of the
  specification: the input is an ordered track of position fixes \<open>(t, x, y, z)\<close> and a window
  length; the output has, at every timestamp, the value of a local polynomial fit over the
  window of samples centred there, cut at the ends of the track; the Smoother fails with
  \<open>InvalidWindow\<close> if the window is even, smaller than 5, or longer than the track. The
  least-squares fit itself is the parameter \<open>fit\<close>: it takes the \<open>(t, value)\<close> samples of
  a window and the time at which to evaluate.
\<close>

type_synonym observation = "real \<times> real \<times> real \<times> real"

definition window_at :: "nat \<Rightarrow> 'a list \<Rightarrow> nat \<Rightarrow> 'a list" where
  "window_at w xs i =
     take (min (length xs) (i + w div 2 + 1) - (i - w div 2)) (drop (i - w div 2) xs)"

definition Smoother :: "((real \<times> real) list \<Rightarrow> real \<Rightarrow> real) \<Rightarrow> observation list \<Rightarrow> int
    \<Rightarrow> error + observation list" where
  "Smoother fit track w =
     (if even w \<or> w < 5 \<or> int (length track) < w then Inl InvalidWindow
      else Inr (map (\<lambda>i. case track ! i of (t, x, y, z) \<Rightarrow>
                  (t,
                   fit (window_at (nat w) (map (\<lambda>(t, x, y, z). (t, x)) track) i) t,
                   fit (window_at (nat w) (map (\<lambda>(t, x, y, z). (t, y)) track) i) t,
                   fit (window_at (nat w) (map (\<lambda>(t, x, y, z). (t, z)) track) i) t))
                [0..<length track]))"

text \<open>The array \<open>mainf\<close> holds for a track: one row \<open>[t, x, y, z]\<close> per fix.\<close>

definition rows_of :: "observation list \<Rightarrow> matrix" where
  "rows_of track = map (\<lambda>(t, x, y, z). [t, x, y, z]) track"

text \<open>The table \<open>dif\<close> of \<open>mainf\<close> in closed form: time, then the three differences.\<close>

definition dif_rows :: "observation list \<Rightarrow> observation list \<Rightarrow> matrix" where
  "dif_rows a b = map2 (\<lambda>(t, x, y, z) (t', x', y', z'). [t, x - x', y - y', z - z']) a b"

section \<open>The Sequential Refiner\<close>







section \<open>The TDoA and Herrick-Gibbs state series\<close>






section \<open>Concrete inputs\<close>

text \<open>
  A small track of seven position fixes and an environment in which every stage succeeds;
  \<open>env_gca_fails\<close> is the same environment with a plotting library that rejects
  \<open>fig.gca(projection='3d')\<close>, as Matplotlib does from version 3.6 on.
\<close>

definition track0 :: matrix where
  "track0 = [[0, 7000, 0, 0], [10, 6999, 75, 1], [20, 6996, 150, 2], [30, 6991, 225, 3],
             [40, 6984, 300, 4], [50, 6975, 374, 5], [60, 6964, 449, 6]]"

definition track1 :: matrix where
  "track1 = [[0, 7001, 0, 0], [10, 7000, 75, 1], [20, 6997, 150, 2], [30, 6992, 225, 3],
             [40, 6985, 300, 4], [50, 6976, 374, 5], [60, 6965, 449, 6]]"

definition state0 :: matrix where
  "state0 = [[7000], [0], [0], [0], [15 / 2], [0]]"

definition kep0 :: matrix where
  "kep0 = [[7001], [1 / 100], [45], [10], [20], [30]]"

definition keep_state0 :: matrix where
  "keep_state0 = map (\<lambda>s. map (\<lambda>i. s + 100 * (real i + 1)) [0..<20]) [7000, 0, 0, 0, 15 / 2, 0]"

definition t_hold0 :: matrix where
  "t_hold0 = map (\<lambda>i. [100 * (real i + 1)]) [0..<20]"

definition env_ok :: env where
  "env_ok = \<lparr> load_data = (\<lambda>f. Inr track0),
              generate_filtered_data = (\<lambda>m n. Inr m),
              golay = (\<lambda>m w. Inr (map (\<lambda>r. [r ! 0, r ! 1 + 1, r ! 2, r ! 3]) m)),
              create_kep = (\<lambda>m. Inr [[m ! 0 ! 1, 1 / 100, 45, 10, 20, 30]]),
              kalman = (\<lambda>k. Inr [[k ! 0 ! 0, k ! 0 ! 1, k ! 0 ! 2, k ! 0 ! 3, k ! 0 ! 4, k ! 0 ! 5]]),
              Kep_state = (\<lambda>k. Inr state0),
              rkf78 = (\<lambda>neq ti tf h tetol x. Inr (map (map (\<lambda>v. v + tf)) x)),
              plt = (\<lambda>c. None) \<rparr>"


text \<open>The same seven fixes as a typed track, and a fit that averages the window.\<close>

definition fit_mean :: "(real \<times> real) list \<Rightarrow> real \<Rightarrow> real" where
  "fit_mean samples t = sum_list (map snd samples) / real (length samples)"

definition obs0 :: "observation list" where
  "obs0 = [(0, 7000, 0, 0), (10, 6999, 75, 1), (20, 6996, 150, 2), (30, 6991, 225, 3),
           (40, 6984, 300, 4), (50, 6975, 374, 5), (60, 6964, 449, 6)]"

text \<open>
  Batch results: a groundtruth track, two candidates that both diverged and ended at the
  same estimate, and three candidates of which the second diverged.
\<close>

definition x_sat_b :: matrix where
  "x_sat_b = [[7000000, 7000100], [0, 7500], [0, 0], [0, 0], [7500, 7500], [0, 0]]"

definition x_0r_d :: matrix where
  "x_0r_d = [[7010000, 7020000], [1000, 2000], [0, 0], [0, 0], [7500, 7500], [0, 0]]"

definition x_br_d :: matrix where
  "x_br_d = [[7300000, 7300000], [0, 0], [0, 0], [0, 0], [7500, 7500], [0, 0]]"

definition x_berr_d :: matrix where
  "x_berr_d = [[200000, 300000], [0, 0], [0, 0], [0, 0], [0, 0], [0, 0]]"

definition x_0r_w :: matrix where
  "x_0r_w = [[7010000, 7020000, 7030000], [1000, 2000, 3000], [0, 0, 0], [0, 0, 0],
             [7500, 7500, 7500], [0, 0, 0]]"

definition x_br_w :: matrix where
  "x_br_w = [[7000030, 7300000, 7000000], [40, 0, 0], [0, 0, 0], [0, 0, 0],
             [7500, 7500, 7500], [0, 0, 0]]"

definition x_berr_w :: matrix where
  "x_berr_w = [[30, 300000, 0], [40, 0, 0], [0, 0, 0], [0, 0, 0], [0, 0, 0], [0, 0, 0]]"










section \<open>Properties of \<open>mainf\<close>\<close>

lemma bindE_Inr_iff: "bindE m f = Inr y \<longleftrightarrow> (\<exists>x. m = Inr x \<and> f x = Inr y)"
  by (cases m) (simp_all add: bindE_def)

lemma mainf_estimate_Inr:
  "mainf_estimate E datafile window = Inr (d, f, k) \<longleftrightarrow>
     (\<exists>raw kep kf. load_data E datafile = Inr raw \<and> generate_filtered_data E raw 3 = Inr d
        \<and> golay E d window = Inr f \<and> create_kep E f = Inr kep \<and> kalman E kep = Inr kf
        \<and> k = np_transpose kf)"
  unfolding mainf_estimate_def bindE_Inr_iff by auto

lemma mainf_returns:
  "snd (mainf E datafile window) = Inr k \<Longrightarrow>
     \<exists>d f. mainf_estimate E datafile window = Inr (d, f, k)"
  unfolding mainf_def
  by (auto simp: Let_def split: sum.splits prod.splits option.splits)

subsection \<open>The propagation loop\<close>



lemma set_column_full:
  assumes "is_mat r c ks" "length v = r"
  shows "set_column ks i v = Inr (map2 (\<lambda>row x. row[i := x]) ks v)"
  using assms by (simp add: set_column_def is_mat_def)






subsection \<open>Evaluation at the concrete inputs\<close>

lemma upt_20: "[0..<20] = [0,1,2,3,4,5,6,7,8,9,10,11,12,13,14,15,16,17,18,19]"
  by (simp add: upt_rec)

lemma mainf_outcome:
  "snd (mainf E datafile window) =
     (case mainf_estimate E datafile window of
        Inl e \<Rightarrow> Inl e
      | Inr (d, f, k) \<Rightarrow>
         (case bindE (Kep_state E k) (mainf_propagate E) of
            Inl e \<Rightarrow> Inl e
          | Inr (ks, th) \<Rightarrow>
             (case mainf_dif d f of
                Inl e \<Rightarrow> Inl e
              | Inr dif \<Rightarrow>
                 (case snd (run_calls (plt E) (mainf_render_calls d f ks th)) of
                    Some e \<Rightarrow> Inl e
                  | None \<Rightarrow> Inr k))))"
  unfolding mainf_def
  by (simp add: Let_def split: sum.splits prod.splits option.splits)

lemma estimate_env_ok: "mainf_estimate env_ok ''orbit.csv'' 61 = Inr (track0, track1, kep0)"
  by (simp add: mainf_estimate_def env_ok_def bindE_def np_transpose_def kep0_def track0_def track1_def)

lemma propagate_env_ok: "mainf_propagate env_ok state0 = Inr (keep_state0, t_hold0)"
  by (simp add: mainf_propagate_def upt_20 env_ok_def state0_def np_zeros_def set_column_def np_ravel_def numeral_eq_Suc keep_state0_def t_hold0_def)

lemma dif_env_ok: "mainf_dif track0 track1 = Inr (map (\<lambda>r. [r ! 0, -1, 0, 0]) track0)"
  by (simp add: mainf_dif_def track0_def track1_def bindE_def np_sub_def cols_slice_def nrows_def ncols_def bdim_def stretch_def set_cols_def np_zeros_def column_def set_column_def)

lemma render_track0: "snd (run_calls (\<lambda>c. None) (mainf_render_calls track0 track1 ks th)) = None"
  by (simp add: mainf_render_calls_def Let_def plot3_def column_def track0_def track1_def bindE_def)


lemma mainf_env_ok: "snd (mainf env_ok ''orbit.csv'' 61) = Inr kep0"
  unfolding mainf_outcome estimate_env_ok
  using propagate_env_ok dif_env_ok render_track0
  by (simp add: bindE_def env_ok_def)




text \<open>
  Claim C1. Whenever \<open>mainf\<close> returns an estimate, that estimate is the transposed
  output of the Kalman refinement, run on the output of \<open>create_kep\<close>, run on the
  Savitzky-Golay output, run on the triple-moving-average output (window 3), run on the
  loaded data file: the stages are applied in this order, and the raw track reaches the
  estimate only through the two smoothing stages.
\<close>

theorem mainf_pipeline_order:
  assumes "snd (mainf E datafile window) = Inr kep_final"
  shows "\<exists>raw my_data my_data_filt kep kf.
           load_data E datafile = Inr raw
         \<and> generate_filtered_data E raw 3 = Inr my_data
         \<and> golay E my_data window = Inr my_data_filt
         \<and> create_kep E my_data_filt = Inr kep
         \<and> kalman E kep = Inr kf
         \<and> kep_final = np_transpose kf"
proof -
  from mainf_returns[OF assms] obtain d f
    where "mainf_estimate E datafile window = Inr (d, f, kep_final)" by blast
  then show ?thesis unfolding mainf_estimate_Inr by blast
qed

text \<open>
  The concrete run: the filter of \<open>env_ok\<close> shifts every \<open>x\<close> by one, and the
  returned semi-major axis is the shifted 7001, not the raw 7000.
\<close>

theorem mainf_pipeline_order_witness:
  "snd (mainf env_ok ''orbit.csv'' 61) = Inr kep0 \<and>
   (\<exists>raw my_data my_data_filt kep kf.
           load_data env_ok ''orbit.csv'' = Inr raw
         \<and> generate_filtered_data env_ok raw 3 = Inr my_data
         \<and> golay env_ok my_data 61 = Inr my_data_filt
         \<and> create_kep env_ok my_data_filt = Inr kep
         \<and> kalman env_ok kep = Inr kf
         \<and> kep0 = np_transpose kf)"
  using mainf_pipeline_order[OF mainf_env_ok] mainf_env_ok by simp











lemma mainf_returns_propagated:
  assumes "snd (mainf E datafile window) = Inr kep_final"
  shows "\<exists>state keep_state t_hold. Kep_state E kep_final = Inr state
           \<and> mainf_propagate E state = Inr (keep_state, t_hold)"
proof -
  from assms have "\<exists>r. bindE (Kep_state E kep_final) (mainf_propagate E) = Inr r"
    unfolding mainf_outcome by (auto split: sum.splits prod.splits option.splits)
  then show ?thesis unfolding bindE_Inr_iff by auto
qed


subsection \<open>The returned elements\<close>










section \<open>Properties of the Smoother\<close>

lemma ncols_map: "tr \<noteq> [] \<Longrightarrow> ncols (map f tr) = length (f (hd tr))"
  by (cases tr) (simp_all add: ncols_def)

lemma mainf_dif_rows:
  assumes "length a = length b" "a \<noteq> []"
  shows "mainf_dif (rows_of a) (rows_of b) = Inr (dif_rows a b)"
proof -
  let ?n = "length a"
  have bne: "b \<noteq> []" using assms by auto
  have sa: "cols_slice (rows_of a) 1 4 = map (\<lambda>(t, x, y, z). [x, y, z]) a" for a :: "observation list"
    by (simp add: cols_slice_def rows_of_def split_def)
  have sub: "np_sub (map (\<lambda>(t, x, y, z). [x, y, z]) a) (map (\<lambda>(t, x, y, z). [x, y, z]) b)
           = Inr (map2 (\<lambda>(t, x, y, z) (t', x', y', z'). [x - x', y - y', z - z']) a b)"
    using assms bne
    by (auto simp: np_sub_def nrows_def ncols_map bdim_def stretch_def split_def zip_map1 zip_map2
        intro!: nth_equalityI)
  let ?d = "map2 (\<lambda>(t, x, y, z) (t', x', y', z'). [x - x', y - y', z - z']) a b"
  have dne: "?d \<noteq> []" using assms bne by (cases a; cases b) auto
  have nc: "ncols ?d = 3" using assms bne by (cases a; cases b) (auto simp: ncols_def split_def)
  have sc: "set_cols (np_zeros ?n 4) 1 4 ?d = Inr (map (\<lambda>r. 0 # r) ?d)"
    using assms nc
    by (auto simp: set_cols_def nrows_def np_zeros_def ncols_def stretch_def split_def
        numeral_eq_Suc intro!: nth_equalityI)
  have col: "column (rows_of a) 0 = Inr (map fst a)"
    by (auto simp: column_def rows_of_def list_all_iff split_def)
  have fin: "set_column (map (\<lambda>r. 0 # r) ?d) 0 (map fst a) = Inr (dif_rows a b)"
    using assms by (auto simp: set_column_def dif_rows_def split_def intro!: nth_equalityI)
  have len: "length (rows_of a) = ?n" by (simp add: rows_of_def)
  show ?thesis
    unfolding mainf_dif_def sa sub len
    by (simp only: bindE_def sum.case sc col fin)
qed

lemma dif_rows_is_mat: "length a = length b \<Longrightarrow> is_mat (length a) 4 (dif_rows a b)"
  by (auto simp: is_mat_def dif_rows_def list_all_iff set_zip split_def)

text \<open>
  Claim C4. For every track and every valid window (odd, at least 5, at most the track
  length) the Smoother returns a track with as many fixes as its input and the same
  timestamps; and the difference table that \<open>mainf\<close> forms from the two tracks is defined:
  it has one row per fix, holding the time and the three coordinate differences.
\<close>

theorem Smoother_same_length_and_timestamps:
  assumes "odd w" "5 \<le> w" "w \<le> int (length track)"
  shows "\<exists>out. Smoother fit track w = Inr out
             \<and> length out = length track
             \<and> map fst out = map fst track
             \<and> mainf_dif (rows_of track) (rows_of out) = Inr (dif_rows track out)
             \<and> is_mat (length track) 4 (dif_rows track out)"
proof -
  define out where "out = map (\<lambda>i. case track ! i of (t, x, y, z) \<Rightarrow>
                  (t,
                   fit (window_at (nat w) (map (\<lambda>(t, x, y, z). (t, x)) track) i) t,
                   fit (window_at (nat w) (map (\<lambda>(t, x, y, z). (t, y)) track) i) t,
                   fit (window_at (nat w) (map (\<lambda>(t, x, y, z). (t, z)) track) i) t))
                [0..<length track]"
  have "\<not> (even w \<or> w < 5 \<or> int (length track) < w)"
    using assms by simp
  then have s: "Smoother fit track w = Inr out"
    unfolding Smoother_def out_def by (simp only: if_False)
  have l: "length out = length track" by (simp add: out_def)
  have t: "map fst out = map fst track"
    by (rule nth_equalityI) (simp_all add: out_def split_def)
  have ne: "track \<noteq> []" using assms by auto
  from mainf_dif_rows[OF l[symmetric] ne] dif_rows_is_mat[OF l[symmetric]] s l t
  show ?thesis by blast
qed

theorem Smoother_same_length_and_timestamps_witness:
  "odd (5::int) \<and> (5::int) \<le> 5 \<and> 5 \<le> int (length obs0)
   \<and> (\<exists>out. Smoother fit_mean obs0 5 = Inr out
             \<and> length out = length obs0
             \<and> map fst out = map fst obs0
             \<and> mainf_dif (rows_of obs0) (rows_of out) = Inr (dif_rows obs0 out)
             \<and> is_mat (length obs0) 4 (dif_rows obs0 out))"
proof -
  have h: "odd (5::int)" "(5::int) \<le> 5" "5 \<le> int (length obs0)"
    by (simp_all add: obs0_def)
  from Smoother_same_length_and_timestamps[OF h] h show ?thesis by blast
qed

text \<open>
  Claim C6. For every window that is even, or smaller than 5, or larger than the track
  length, the Smoother fails with \<open>InvalidWindow\<close> and returns no track.
\<close>

theorem Smoother_invalid_window:
  assumes "even w \<or> w < 5 \<or> int (length track) < w"
  shows "Smoother fit track w = Inl InvalidWindow"
  using assms by (simp add: Smoother_def)

theorem Smoother_invalid_window_witness:
  "int (length obs0) < 9 \<and> Smoother fit_mean obs0 9 = Inl InvalidWindow
   \<and> even (6::int) \<and> Smoother fit_mean obs0 6 = Inl InvalidWindow
   \<and> (3::int) < 5 \<and> Smoother fit_mean obs0 3 = Inl InvalidWindow"
proof -
  have a: "int (length obs0) < 9" by (simp add: obs0_def)
  have b: "even (6::int)" by simp
  have c: "(3::int) < 5" by simp
  from a have a': "even (9::int) \<or> (9::int) < 5 \<or> int (length obs0) < 9" by blast
  from b have b': "even (6::int) \<or> (6::int) < 5 \<or> int (length obs0) < 6" by blast
  from c have c': "even (3::int) \<or> (3::int) < 5 \<or> int (length obs0) < 3" by blast
  from Smoother_invalid_window[OF a'] Smoother_invalid_window[OF b'] Smoother_invalid_window[OF c']
    a b c show ?thesis by blast
qed

section \<open>Properties of the plotting functions\<close>

text \<open>
  Claim C8. For every 2-D observer array, \<open>plot_example_3d\<close> raises TypeError after
  creating an empty figure and before any scatter call, and \<open>plot_range_range_rate\<close>
  raises TypeError before creating its figure: the path for a 2-D input never succeeds.
\<close>

theorem two_dim_observers_raise_TypeError:
  "plot_example_3d x_sat (Arr2 m) title
     = ([Rc_font 16, New_figure 14 14, Add_subplot 1 1 1 True], Some TypeError)
   \<and> plot_range_range_rate range_range_rate x_sat (Arr2 m) t_sec = ([], Some TypeError)"
proof -
  have dfix: "dimension_fix (Arr2 m) = Inl TypeError"
    by (simp add: dimension_fix_def np_expand_dims_def)
  show ?thesis
    by (simp add: plot_example_3d_def plot_range_range_rate_def dfix)
qed

lemma run_steps_Inr: "run_steps (map Inr ds) = (ds, None)"
  by (induction ds) simp_all

lemma concat_map_Inr: "concat (map (\<lambda>i. map Inr (f i)) xs) = map Inr (concat (map f xs))"
  by (induction xs) simp_all

lemma is_mat_ncols: "is_mat r c m \<Longrightarrow> 0 < r \<Longrightarrow> ncols m = c"
  by (cases m) (auto simp: is_mat_def ncols_def)

lemma is_mat_elem: "is_mat r c m \<Longrightarrow> k < r \<Longrightarrow> i < c \<Longrightarrow> elem m k i = Inr (m ! k ! i)"
  by (auto simp: is_mat_def elem_def list_all_iff)

lemma is_mat_point:
  assumes "is_mat 6 c m" "i < c"
  shows "point m i style = Inr (scatter_at m i style)"
  using is_mat_elem[OF assms(1) _ assms(2)]
  by (simp add: point_def bindE_def scatter_at_def)

lemma is_mat_row_at: "is_mat r c m \<Longrightarrow> k < r \<Longrightarrow> row_at m k = Inr (m ! k)"
  by (simp add: is_mat_def row_at_def)

lemma length_col_norms: "length (col_norms m) = ncols m"
  by (simp add: col_norms_def)

lemma candidate_steps_Inr:
  assumes "is_mat 6 n x_0r" "is_mat 6 n x_br" "length norms = n" "i < n"
  shows "candidate_steps norms x_0r x_br i =
           map Inr (if norms ! i < 100000
                    then [scatter_at x_0r i ''c=b,s=40,marker=x'', scatter_at x_br i ''c=r,s=20'']
                    else [])"
  using assms is_mat_point[OF assms(1,4)] is_mat_point[OF assms(2,4)]
  by (simp add: candidate_steps_def nth_checked_def)

lemma plot_batch_results_masked_closed:
  assumes "is_mat 6 k x_sat" "1 \<le> k" "is_mat 6 n x_0r" "is_mat 6 n x_br" "is_mat 6 n x_berr"
    "2 \<le> n"
  shows "plot_batch_results_masked threshold x_sat x_0r x_br x_berr =
    ([New_figure 14 14, Add_subplot 1 1 1 True, Rc_font 16, Ticklabel_format ''y'',
      scatter_at x_sat 0 ''s=10,marker=x,c=r'',
      Plot_line3 (take 4 (x_sat ! 0)) (take 4 (x_sat ! 1)) (take 4 (x_sat ! 2)) ''c=k'',
      scatter_at x_sat 0 ''c=k,s=10''] @
     concat (map (\<lambda>i. if col_norms x_berr ! i < 100000
                       then [scatter_at x_0r i ''c=b,s=40,marker=x'',
                             scatter_at x_br i ''c=r,s=20'']
                       else []) [0..<n]) @
     [Axis_label ''x'' ''x ECI (m)'', Axis_label ''y'' ''y ECI (m)'',
      Axis_label ''z'' ''z ECI (m)'',
      scatter_at x_0r 0 ''c=b,s=40,marker=x'',
      scatter_at x_br 1 ''c=r,s=20'',
      Legend_of [Entry ''Groundtruth trajectory'', Entry ''Pre-batch positions'',
                 Entry ''Post-batch positions'']],
     None)" (is "_ = (?out, None)")
proof -
  have nc: "ncols x_0r = n" using is_mat_ncols[OF assms(3)] by simp
  have ln: "length (col_norms x_berr) = n"
    using is_mat_ncols[OF assms(5)] by (simp add: length_col_norms)
  have loop: "concat (map (candidate_steps (col_norms x_berr) x_0r x_br) [0..<n])
        = map Inr (concat (map (\<lambda>i. if col_norms x_berr ! i < 100000
                       then [scatter_at x_0r i ''c=b,s=40,marker=x'',
                             scatter_at x_br i ''c=r,s=20'']
                       else []) [0..<n]))"
    unfolding concat_map_Inr[symmetric]
    by (rule arg_cong[where f = concat], rule map_cong[OF refl])
       (simp add: candidate_steps_Inr[OF assms(3,4) ln])
  have p0: "point x_sat 0 style = Inr (scatter_at x_sat 0 style)" for style
    using is_mat_point[OF assms(1)] assms(2) by simp
  have q0: "point x_0r 0 style = Inr (scatter_at x_0r 0 style)" for style
    using is_mat_point[OF assms(3)] assms(6) by simp
  have q1: "point x_br 1 style = Inr (scatter_at x_br 1 style)" for style
    using is_mat_point[OF assms(4)] assms(6) by simp
  have rows: "row_at x_sat 0 = Inr (x_sat ! 0)" "row_at x_sat 1 = Inr (x_sat ! 1)"
    "row_at x_sat 2 = Inr (x_sat ! 2)"
    using is_mat_row_at[OF assms(1)] by simp_all
  have "plot_batch_results_masked threshold x_sat x_0r x_br x_berr = run_steps (map Inr ?out)"
    unfolding plot_batch_results_masked_def Let_def nc loop p0 q0 q1 rows
    by (simp add: bindE_def)
  then show ?thesis by (simp only: run_steps_Inr)
qed

text \<open>
  Claim C3, as the code has it. For a groundtruth array of 6 rows and at least one column,
  and candidate arrays of 6 rows and the same number (at least two) of columns: the loop
  scatters the pre-batch and post-batch positions of candidate \<open>i\<close> exactly when its error
  norm is below 100000; after the loop, the pre-batch position of candidate 0 and the
  post-batch position of candidate 1 are scattered once more, whatever their error norms,
  as handles of the legend; and the threshold of the mask (5000 in the source) has no
  effect on what is drawn.
\<close>

theorem plot_batch_results_converged_and_proxies:
  assumes "is_mat 6 k x_sat" "1 \<le> k" "is_mat 6 n x_0r" "is_mat 6 n x_br" "is_mat 6 n x_berr"
    "2 \<le> n"
  shows "plot_batch_results x_sat x_0r x_br x_berr =
    ([New_figure 14 14, Add_subplot 1 1 1 True, Rc_font 16, Ticklabel_format ''y'',
      scatter_at x_sat 0 ''s=10,marker=x,c=r'',
      Plot_line3 (take 4 (x_sat ! 0)) (take 4 (x_sat ! 1)) (take 4 (x_sat ! 2)) ''c=k'',
      scatter_at x_sat 0 ''c=k,s=10''] @
     concat (map (\<lambda>i. if col_norms x_berr ! i < 100000
                       then [scatter_at x_0r i ''c=b,s=40,marker=x'',
                             scatter_at x_br i ''c=r,s=20'']
                       else []) [0..<n]) @
     [Axis_label ''x'' ''x ECI (m)'', Axis_label ''y'' ''y ECI (m)'',
      Axis_label ''z'' ''z ECI (m)'',
      scatter_at x_0r 0 ''c=b,s=40,marker=x'',
      scatter_at x_br 1 ''c=r,s=20'',
      Legend_of [Entry ''Groundtruth trajectory'', Entry ''Pre-batch positions'',
                 Entry ''Post-batch positions'']],
     None)
   \<and> plot_batch_results_masked threshold x_sat x_0r x_br x_berr
       = plot_batch_results x_sat x_0r x_br x_berr"
  unfolding plot_batch_results_def
  by (simp only: plot_batch_results_masked_closed[OF assms] simp_thms)

theorem plot_batch_results_converged_and_proxies_witness:
  "is_mat 6 2 x_sat_b \<and> (1::nat) \<le> 2 \<and> is_mat 6 3 x_0r_w \<and> is_mat 6 3 x_br_w
   \<and> is_mat 6 3 x_berr_w \<and> (2::nat) \<le> 3
   \<and> plot_batch_results x_sat_b x_0r_w x_br_w x_berr_w =
    ([New_figure 14 14, Add_subplot 1 1 1 True, Rc_font 16, Ticklabel_format ''y'',
      scatter_at x_sat_b 0 ''s=10,marker=x,c=r'',
      Plot_line3 (take 4 (x_sat_b ! 0)) (take 4 (x_sat_b ! 1)) (take 4 (x_sat_b ! 2)) ''c=k'',
      scatter_at x_sat_b 0 ''c=k,s=10''] @
     concat (map (\<lambda>i. if col_norms x_berr_w ! i < 100000
                       then [scatter_at x_0r_w i ''c=b,s=40,marker=x'',
                             scatter_at x_br_w i ''c=r,s=20'']
                       else []) [0..<3]) @
     [Axis_label ''x'' ''x ECI (m)'', Axis_label ''y'' ''y ECI (m)'',
      Axis_label ''z'' ''z ECI (m)'',
      scatter_at x_0r_w 0 ''c=b,s=40,marker=x'',
      scatter_at x_br_w 1 ''c=r,s=20'',
      Legend_of [Entry ''Groundtruth trajectory'', Entry ''Pre-batch positions'',
                 Entry ''Post-batch positions'']],
     None)
   \<and> plot_batch_results_masked 100000 x_sat_b x_0r_w x_br_w x_berr_w
       = plot_batch_results x_sat_b x_0r_w x_br_w x_berr_w"
proof -
  have h: "is_mat 6 2 x_sat_b" "(1::nat) \<le> 2" "is_mat 6 3 x_0r_w" "is_mat 6 3 x_br_w"
    "is_mat 6 3 x_berr_w" "(2::nat) \<le> 3"
    by (simp_all add: is_mat_def x_sat_b_def x_0r_w_def x_br_w_def x_berr_w_def)
  from plot_batch_results_converged_and_proxies[OF h, of 100000] h show ?thesis
    by (simp only: simp_thms)
qed

lemma sqrt_200000: "sqrt 40000000000 = 200000"
  by (rule real_sqrt_unique) simp_all

lemma sqrt_300000: "sqrt 90000000000 = 300000"
  by (rule real_sqrt_unique) simp_all

lemma col_norms_x_berr_d: "col_norms x_berr_d = [200000, 300000]"
  by (simp add: col_norms_def ncols_def x_berr_d_def upt_rec sqrt_200000 sqrt_300000)

text \<open>
  Claim C3 as stated fails. Two candidates, both with an error norm of at least 100000,
  whose batch estimates ended at the same point: the figure still shows the pre-batch
  position of candidate 0, and the post-batch position that candidates 0 and 1 share.
\<close>

theorem plot_batch_results_counterexample:
  "col_norms x_berr_d = [200000, 300000]
   \<and> scatter_at x_0r_d 0 ''c=b,s=40,marker=x'' = Scatter_point 7010000 1000 0 ''c=b,s=40,marker=x''
   \<and> scatter_at x_br_d 0 ''c=r,s=20'' = Scatter_point 7300000 0 0 ''c=r,s=20''
   \<and> plot_batch_results x_sat_b x_0r_d x_br_d x_berr_d =
      ([New_figure 14 14, Add_subplot 1 1 1 True, Rc_font 16, Ticklabel_format ''y'',
        Scatter_point 7000000 0 0 ''s=10,marker=x,c=r'',
        Plot_line3 [7000000, 7000100] [0, 7500] [0, 0] ''c=k'',
        Scatter_point 7000000 0 0 ''c=k,s=10'',
        Axis_label ''x'' ''x ECI (m)'', Axis_label ''y'' ''y ECI (m)'',
        Axis_label ''z'' ''z ECI (m)'',
        Scatter_point 7010000 1000 0 ''c=b,s=40,marker=x'',
        Scatter_point 7300000 0 0 ''c=r,s=20'',
        Legend_of [Entry ''Groundtruth trajectory'', Entry ''Pre-batch positions'',
                   Entry ''Post-batch positions'']],
       None)"
proof -
  have h: "is_mat 6 2 x_sat_b" "(1::nat) \<le> 2" "is_mat 6 2 x_0r_d" "is_mat 6 2 x_br_d"
    "is_mat 6 2 x_berr_d" "(2::nat) \<le> 2"
    by (simp_all add: is_mat_def x_sat_b_def x_0r_d_def x_br_d_def x_berr_d_def)
  show ?thesis
    unfolding plot_batch_results_def plot_batch_results_masked_closed[OF h] col_norms_x_berr_d
    by (simp add: upt_rec scatter_at_def x_sat_b_def x_0r_d_def x_br_d_def)
qed

lemma length_stretch:
  "length xs = m \<Longrightarrow> bdim m k = Some c \<Longrightarrow> length (stretch c xs) = c \<or> (k = 1 \<and> c = m)"
  by (auto simp: stretch_def bdim_def split: if_splits)
















end
